theory Spec2Isabelle
  imports Main "HOL-Library.Word"
begin

section \<open>The guestbook submission handler (internal/handler/home.go)\<close>

text \<open>
  A Go string is a sequence of bytes, modelled as \<open>string\<close> (a list of 8-bit
  characters). The handler \<open>Create\<close> is straight-line code over calls to the standard
  library, to two third-party detectors and to the \<open>guest\<close> package; every call with an
  effect is recorded, in program order, in the list of effects that the model returns.
\<close>

subsection \<open>Bytes that the handler names\<close>

definition CR :: char where
  "CR = CHR 0x0D"

definition LF :: char where
  "LF = CHR 0x0A"

definition SP :: char where
  "SP = CHR 0x20"

subsection \<open>Newline normalisation: \<open>newlineRegex.ReplaceAllString(message, " ")\<close>\<close>

text \<open>
  \<open>newlineRegex\<close> is \<open>regexp.MustCompile(`\r?\n`)\<close> (home.go line 68). ReplaceAllString
  scans left to right and replaces every leftmost, non-overlapping match with the
  replacement text, copying all other bytes. At a position the pattern matches the two
  bytes CR LF, or else the single byte LF; a CR that is not followed by LF matches nothing.
\<close>

fun newlineReplace :: "string \<Rightarrow> string" where
  "newlineReplace [] = []"
| "newlineReplace (c # cs) =
     (if c = CR then
        (case cs of
           [] \<Rightarrow> [c]
         | d # ds \<Rightarrow> if d = LF then SP # newlineReplace ds else c # newlineReplace cs)
      else if c = LF then SP # newlineReplace cs
      else c # newlineReplace cs)"

subsection \<open>The \<open>strings\<close> package, as the handler calls it\<close>

text \<open>\<open>strings.Join(elems, sep)\<close>.\<close>

fun Join :: "string list \<Rightarrow> string \<Rightarrow> string" where
  "Join [] sep = []"
| "Join [x] sep = x"
| "Join (x # y # ys) sep = x @ sep @ Join (y # ys) sep"

text \<open>
  \<open>strings.Split(s, sep)\<close> for a separator of one byte (the handler splits on \<open>","\<close> and
  on \<open>":"\<close>): the pieces between the separators, so one piece more than there are
  separators; \<open>Split("", sep)\<close> is the one-element list holding the empty string.
\<close>

fun Split :: "string \<Rightarrow> char \<Rightarrow> string list" where
  "Split [] sep = [[]]"
| "Split (c # cs) sep =
     (if c = sep then [] # Split cs sep
      else (case Split cs sep of
              [] \<Rightarrow> [[c]]
            | x # xs \<Rightarrow> (c # x) # xs))"

text \<open>
  \<open>strings.Trim(s, cutset)\<close> for a cutset of ASCII bytes (the handler's is \<open>"[]"\<close>):
  the bytes of the cutset are removed from both ends.
\<close>

definition Trim :: "string \<Rightarrow> string \<Rightarrow> string" where
  "Trim s cutset =
     dropWhile (\<lambda>c. c \<in> set cutset) (rev (dropWhile (\<lambda>c. c \<in> set cutset) (rev s)))"

text \<open>The table \<open>asciiSpace\<close> of the strings package: tab, LF, VT, FF, CR and space.\<close>

definition asciiSpace :: "char \<Rightarrow> bool" where
  "asciiSpace c = (c \<in> set [CHR 0x09, CHR 0x0A, CHR 0x0B, CHR 0x0C, CHR 0x0D, CHR 0x20])"

text \<open>\<open>utf8.RuneSelf\<close>: bytes below it are ASCII.\<close>

definition RuneSelf :: nat where
  "RuneSelf = 0x80"

subsection \<open>Data\<close>

text \<open>A \<open>net.IP\<close> that is not nil: the 16 bytes that \<open>net.ParseIP\<close> returns. The nil
  IP is \<open>None\<close> of \<open>IP option\<close>.\<close>

type_synonym IP = "8 word list"

text \<open>A Go \<open>error\<close> value that is not nil, by its message.\<close>

datatype error = Error string

text \<open>
  Modelled from the spec: the struct \<open>guest.Guest\<close> is declared in internal/guest, which
  is not among the sources. Section 3 of the specification gives a Guest Entry a message
  text, a client identity and a creation timestamp; the handler reads only \<open>CreatedAt\<close>.
  Instants are integers, in nanoseconds.
\<close>

record Guest =
  GuestMessage :: string
  GuestIP :: "IP option"
  CreatedAt :: int

text \<open>
  What \<open>Create\<close> reads of \<open>*http.Request\<close>: the error of \<open>r.ParseForm()\<close> (or none),
  the map \<open>r.Form\<close>, \<open>r.Header.Get("X-Forwarded-For")\<close> (empty when the header is
  absent) and \<open>r.RemoteAddr\<close>.
\<close>

record Request =
  ParseFormErr :: "error option"
  Form :: "string \<Rightarrow> string list option"
  XForwardedFor :: string
  RemoteAddr :: string

text \<open>
  What the handler calls and does not define. The repository and \<open>guest.NewGuest\<close>
  belong to internal/guest; \<open>goaway.IsProfane\<close> and \<open>xurls.Relaxed()\<close> are third-party
  detectors; the rest is the part of the standard library that is not written out below:
  the IPv6 branch of the address parser (with the check that the address has no zone),
  the text of an IP that is not nil, and the Unicode branches of \<open>strings.TrimSpace\<close>.
\<close>

record World =
  repo_LastMessage :: "IP option \<Rightarrow> error + Guest"
  repo_Insert :: "Guest \<Rightarrow> error option"
  guest_NewGuest :: "string \<Rightarrow> IP option \<Rightarrow> error + Guest"
  goaway_IsProfane :: "string \<Rightarrow> bool"
  linkRegex_MatchString :: "string \<Rightarrow> bool"
  time_Now :: int
  netip_parseIPv6 :: "string \<Rightarrow> IP option"
  net_IP_String :: "IP \<Rightarrow> string"
  strings_TrimFunc_IsSpace :: "string \<Rightarrow> string"
  strings_TrimRightFunc_IsSpace :: "string \<Rightarrow> string"

text \<open>A run-time panic of Go.\<close>

datatype panic = SliceBoundsOutOfRange

text \<open>The calls of \<open>Create\<close> that act on the world, one constructor for each.\<close>

datatype effect =
    LogError string error
  | WriteHeader nat
  | ExecuteTemplate string string
  | RepoLastMessage "IP option"
  | Sleep int
  | GoawayIsProfane string
  | LinkMatchString string
  | GuestNewGuest string "IP option"
  | RepoInsert Guest
  | Redirect string nat
  | Panic panic

subsection \<open>\<open>strings.TrimSpace\<close>\<close>

text \<open>
  The first loop skips ASCII white space from the start; at a byte that is not ASCII it
  hands the rest to \<open>TrimFunc(s[start:], unicode.IsSpace)\<close>. The second loop does the
  same from the end, handing over to \<open>TrimRightFunc(s[start:stop], unicode.IsSpace)\<close>.
\<close>

definition TrimSpace :: "World \<Rightarrow> string \<Rightarrow> string" where
  "TrimSpace w s =
     (let fromStart = dropWhile asciiSpace s in
      case fromStart of
        [] \<Rightarrow> []
      | c # _ \<Rightarrow>
          if RuneSelf \<le> of_char c then strings_TrimFunc_IsSpace w fromStart
          else
            (let kept = rev (dropWhile asciiSpace (rev fromStart)) in
             case rev kept of
               [] \<Rightarrow> []
             | d # _ \<Rightarrow>
                 if RuneSelf \<le> of_char d then strings_TrimRightFunc_IsSpace w kept
                 else kept))"

subsection \<open>\<open>net.ParseIP\<close> and \<open>IP.String\<close>\<close>

text \<open>
  \<open>parseIPv4\<close> of net/netip, as a loop over the bytes. The state of the loop: whether
  this is the first byte (\<open>i == 0\<close>), the byte before (\<open>s[i-1]\<close>), \<open>val\<close>,
  \<open>digLen\<close> and the fields stored so far (\<open>flds\<close>; \<open>pos\<close> is their number).
\<close>

fun parseIPv4_loop :: "string \<Rightarrow> bool \<Rightarrow> char \<Rightarrow> nat \<Rightarrow> nat \<Rightarrow> 8 word list \<Rightarrow> 8 word list option" where
  "parseIPv4_loop [] first prev val digLen flds =
     (if length flds < 3 then None else Some (flds @ [of_nat val]))"
| "parseIPv4_loop (c # cs) first prev val digLen flds =
     (if of_char (CHR ''0'') \<le> (of_char c :: nat) \<and> (of_char c :: nat) \<le> of_char (CHR ''9'') then
        (if digLen = 1 \<and> val = 0 then None
         else
           (let val' = val * 10 + (of_char c - of_char (CHR ''0'')) in
            if val' > 255 then None
            else parseIPv4_loop cs False c val' (digLen + 1) flds))
      else if c = CHR ''.'' then
        (if first \<or> cs = [] \<or> prev = CHR ''.'' then None
         else if length flds = 3 then None
         else parseIPv4_loop cs False c 0 0 (flds @ [of_nat val]))
      else None)"

definition parseIPv4 :: "string \<Rightarrow> 8 word list option" where
  "parseIPv4 s = parseIPv4_loop s True (CHR 0x00) 0 0 []"

text \<open>\<open>Addr.As16\<close> of an IPv4 address: the IPv4-mapped IPv6 form.\<close>

definition As16 :: "8 word list \<Rightarrow> IP" where
  "As16 v4 = replicate 10 0 @ [0xFF, 0xFF] @ v4"

text \<open>
  The loop of \<open>netip.ParseAddr\<close>: the first of the bytes \<open>.\<close>, \<open>:\<close> and \<open>%\<close> decides
  how the whole string \<open>s\<close> is parsed; a string with none of them is no address.
\<close>

fun ParseAddr_loop :: "World \<Rightarrow> string \<Rightarrow> string \<Rightarrow> IP option" where
  "ParseAddr_loop w s [] = None"
| "ParseAddr_loop w s (c # cs) =
     (if c = CHR ''.'' then map_option As16 (parseIPv4 s)
      else if c = CHR '':'' then netip_parseIPv6 w s
      else if c = CHR ''%'' then None
      else ParseAddr_loop w s cs)"

definition ParseIP :: "World \<Rightarrow> string \<Rightarrow> IP option" where
  "ParseIP w s = ParseAddr_loop w s s"

text \<open>\<open>ip.String()\<close>: the text \<open><nil>\<close> for an IP of length 0.\<close>

definition IP_String :: "World \<Rightarrow> IP option \<Rightarrow> string" where
  "IP_String w ip = (case ip of None \<Rightarrow> ''<nil>'' | Some a \<Rightarrow> net_IP_String w a)"

subsection \<open>Time\<close>

definition Second :: int where
  "Second = 1000000000"

definition Minute :: int where
  "Minute = 60 * Second"

definition minDuration :: int where
  "minDuration = - (2 ^ 63)"

definition maxDuration :: int where
  "maxDuration = 2 ^ 63 - 1"

text \<open>\<open>time.Since(t)\<close> is \<open>time.Now().Sub(t)\<close>; a Duration is an int64 and \<open>Sub\<close>
  saturates.\<close>

definition Since :: "World \<Rightarrow> int \<Rightarrow> int" where
  "Since w t =
     (let d = time_Now w - t in
      if d < minDuration then minDuration
      else if maxDuration < d then maxDuration
      else d)"

subsection \<open>The handler \<open>Create\<close>\<close>

definition StatusFound :: nat where
  "StatusFound = 302"

definition StatusBadRequest :: nat where
  "StatusBadRequest = 400"

definition StatusInternalServerError :: nat where
  "StatusInternalServerError = 500"

text \<open>
  Lines 94 to 109: the client's address. \<open>splits[:len(splits)-1]\<close> panics on an empty
  slice; \<open>xffSplits[len(xffSplits)-1]\<close> is guarded by the test on the length.
\<close>

definition Create_resolveIP :: "World \<Rightarrow> Request \<Rightarrow> panic + IP option" where
  "Create_resolveIP w r =
     (let addr = XForwardedFor r;
          xffSplits = Split addr (CHR '','');
          xffStr = (if length xffSplits > 0 then last xffSplits else []);
          splits = Split (RemoteAddr r) (CHR '':'')
      in if length splits = 0 then Inl SliceBoundsOutOfRange
         else
           (let ipStr = Trim (Join (butlast splits) '':'') ''[]'';
                ip = ParseIP w ipStr
            in Inr (if xffStr \<noteq> [] then ParseIP w xffStr else ip)))"

text \<open>Lines 120 to 157: normalisation, the two detectors, construction and insertion.\<close>

definition Create_moderate :: "World \<Rightarrow> string \<Rightarrow> IP option \<Rightarrow> effect list" where
  "Create_moderate w message0 ip =
     (let message = newlineReplace message0 in
      GoawayIsProfane message #
      (if goaway_IsProfane w message then
         [WriteHeader StatusBadRequest,
          ExecuteTemplate ''error.html''
            (''Please don't use profanity. Your IP has been tracked '' @ IP_String w ip)]
       else
         LinkMatchString message #
         (if linkRegex_MatchString w message then
            [WriteHeader StatusBadRequest, ExecuteTemplate ''error.html'' ''No links allowed'']
          else
            GuestNewGuest message ip #
            (case guest_NewGuest w message ip of
               Inl err \<Rightarrow>
                 [LogError ''failed to create guest'' err, WriteHeader StatusInternalServerError]
             | Inr guest \<Rightarrow>
                 RepoInsert guest #
                 (case repo_Insert w guest of
                    Some err \<Rightarrow>
                      [LogError ''failed to insert guest'' err,
                       WriteHeader StatusInternalServerError]
                  | None \<Rightarrow> [Redirect ''/'' StatusFound])))))"

text \<open>Lines 111 to 118: the test that ends the request after a sleep of one minute.\<close>

definition Create_limited :: "World \<Rightarrow> IP option \<Rightarrow> bool" where
  "Create_limited w ip =
     (case repo_LastMessage w ip of
        Inl err \<Rightarrow> False
      | Inr lastMsg \<Rightarrow> Since w (CreatedAt lastMsg) < Minute)"

definition Create :: "World \<Rightarrow> Request \<Rightarrow> effect list" where
  "Create w r =
     (case ParseFormErr r of
        Some err \<Rightarrow>
          [LogError ''failed to parse form'' err, WriteHeader StatusInternalServerError]
      | None \<Rightarrow>
          (case Form r ''message'' of
             None \<Rightarrow> [WriteHeader StatusBadRequest]
           | Some msg \<Rightarrow>
               (let message = Join msg '' '' in
                if TrimSpace w message = [] then
                  [WriteHeader StatusBadRequest,
                   ExecuteTemplate ''error.html'' ''Blank messages don't count'']
                else
                  (case Create_resolveIP w r of
                     Inl p \<Rightarrow> [Panic p]
                   | Inr ip \<Rightarrow>
                       RepoLastMessage ip #
                       (if Create_limited w ip then [Sleep Minute]
                        else Create_moderate w message ip)))))"

subsection \<open>Concrete worlds and requests\<close>

text \<open>\<open>strings.HasPrefix\<close> and \<open>strings.Contains\<close>, for the stand-in detectors below.\<close>

fun HasPrefix :: "string \<Rightarrow> string \<Rightarrow> bool" where
  "HasPrefix s [] = True"
| "HasPrefix [] (p # ps) = False"
| "HasPrefix (c # cs) (p # ps) = (c = p \<and> HasPrefix cs ps)"

fun Contains :: "string \<Rightarrow> string \<Rightarrow> bool" where
  "Contains [] sub = HasPrefix [] sub"
| "Contains (c # cs) sub = (HasPrefix (c # cs) sub \<or> Contains cs sub)"

text \<open>
  A world in which nobody has posted before and every insertion succeeds. Its two
  detectors are stand-ins for the third-party ones: one word of the profanity lexicon,
  and the scheme prefix and one top-level domain for the link pattern. Its IPv6 parser
  and its address printer are stand-ins too; the scenarios use IPv4 addresses and never
  print one.
\<close>

definition quietWorld :: World where
  "quietWorld =
     \<lparr> repo_LastMessage = (\<lambda>ip. Inl (Error ''no rows in result set'')),
       repo_Insert = (\<lambda>g. None),
       guest_NewGuest =
         (\<lambda>text ip. Inr \<lparr> GuestMessage = text, GuestIP = ip, CreatedAt = 1700000000 * Second \<rparr>),
       goaway_IsProfane = (\<lambda>t. Contains t ''shit''),
       linkRegex_MatchString = (\<lambda>t. Contains t ''http://'' \<or> Contains t ''.com''),
       time_Now = 1700000000 * Second,
       netip_parseIPv6 = (\<lambda>s. None),
       net_IP_String = (\<lambda>a. ''(address)''),
       strings_TrimFunc_IsSpace = (\<lambda>s. s),
       strings_TrimRightFunc_IsSpace = (\<lambda>s. s) \<rparr>"

text \<open>The same world, where every address last posted \<open>age\<close> nanoseconds ago.\<close>

definition postedWorld :: "int \<Rightarrow> World" where
  "postedWorld age =
     quietWorld
       \<lparr> repo_LastMessage :=
           (\<lambda>ip. Inr \<lparr> GuestMessage = ''first'', GuestIP = ip,
                        CreatedAt = 1700000000 * Second - age \<rparr>) \<rparr>"

definition formRequest :: "string list \<Rightarrow> string \<Rightarrow> Request" where
  "formRequest msg xff =
     \<lparr> ParseFormErr = None,
       Form = [''message'' \<mapsto> msg],
       XForwardedFor = xff,
       RemoteAddr = ''203.0.113.7:54321'' \<rparr>"

text \<open>The address \<open>203.0.113.7\<close>, as \<open>net.ParseIP\<close> returns it.\<close>

definition clientAddr :: IP where
  "clientAddr = As16 [203, 0, 113, 7]"

section \<open>Properties\<close>

subsection \<open>Newline normalisation\<close>

lemma bytes_distinct: "CR \<noteq> LF" "SP \<noteq> LF" "SP \<noteq> CR"
  by (simp_all add: CR_def LF_def SP_def)

lemma newlineReplace_CR_LF: "newlineReplace (CR # LF # ds) = SP # newlineReplace ds"
  by simp

lemma newlineReplace_CR_other:
  "d \<noteq> LF \<Longrightarrow> newlineReplace (CR # d # ds) = CR # newlineReplace (d # ds)"
  by simp

lemma newlineReplace_CR_end: "newlineReplace [CR] = [CR]"
  by simp

lemma newlineReplace_LF: "newlineReplace (LF # cs) = SP # newlineReplace cs"
  using bytes_distinct by simp

lemma newlineReplace_other:
  "c \<noteq> CR \<Longrightarrow> c \<noteq> LF \<Longrightarrow> newlineReplace (c # cs) = c # newlineReplace cs"
  by simp

lemmas newlineReplace_eqs =
  newlineReplace_CR_LF newlineReplace_CR_other newlineReplace_CR_end newlineReplace_LF
  newlineReplace_other

text \<open>The shapes of a string that the scan of \<open>newlineReplace\<close> tells apart.\<close>

lemma newline_cases:
  obtains "s = []" | "s = [CR]" | ds where "s = CR # LF # ds"
  | d ds where "s = CR # d # ds" "d \<noteq> LF"
  | cs where "s = LF # cs" | c cs where "s = c # cs" "c \<noteq> CR" "c \<noteq> LF"
proof (cases s)
  case Nil
  then show ?thesis using that by blast
next
  case (Cons c cs)
  then show ?thesis using that by (cases cs) metis+
qed

lemma LF_notin_newlineReplace: "LF \<notin> set (newlineReplace s)"
proof (induction s rule: length_induct)
  case (1 s)
  show ?case
    using 1 bytes_distinct
    by (cases s rule: newline_cases)
      (simp_all add: newlineReplace_eqs del: newlineReplace.simps(2))
qed

lemma newlineReplace_without_LF: "LF \<notin> set s \<Longrightarrow> newlineReplace s = s"
proof (induction s rule: length_induct)
  case (1 s)
  show ?case
    using 1 bytes_distinct
    by (cases s rule: newline_cases)
      (simp_all add: newlineReplace_eqs del: newlineReplace.simps(2))
qed

text \<open>The scan commutes with concatenation, unless the cut separates a CR from its LF.\<close>

lemma newlineReplace_append:
  "xs = [] \<or> last xs \<noteq> CR \<or> ys = [] \<or> hd ys \<noteq> LF \<Longrightarrow>
   newlineReplace (xs @ ys) = newlineReplace xs @ newlineReplace ys"
proof (induction xs rule: length_induct)
  case (1 xs)
  note IH = 1(1)[rule_format]
  show ?case
  proof (cases xs rule: newline_cases)
    case 1
    then show ?thesis by simp
  next
    case 2
    show ?thesis
    proof (cases ys)
      case Nil
      with 2 show ?thesis by simp
    next
      case (Cons y ys')
      with 2 1(2) show ?thesis
        by (simp add: newlineReplace_eqs del: newlineReplace.simps(2))
    qed
  next
    case (3 ds)
    have "newlineReplace (ds @ ys) = newlineReplace ds @ newlineReplace ys"
      using 3 1(2) bytes_distinct by (intro IH) (auto split: if_splits)
    with 3 show ?thesis
      by (simp add: newlineReplace_eqs del: newlineReplace.simps(2))
  next
    case (4 d ds)
    have "newlineReplace ((d # ds) @ ys) = newlineReplace (d # ds) @ newlineReplace ys"
      using 4 1(2) by (intro IH) (auto split: if_splits)
    with 4 show ?thesis
      by (simp add: newlineReplace_eqs del: newlineReplace.simps(2))
  next
    case (5 cs)
    have "newlineReplace (cs @ ys) = newlineReplace cs @ newlineReplace ys"
      using 5 1(2) bytes_distinct by (intro IH) (auto split: if_splits)
    with 5 show ?thesis
      by (simp add: newlineReplace_eqs del: newlineReplace.simps(2))
  next
    case (6 c cs)
    have "newlineReplace (cs @ ys) = newlineReplace cs @ newlineReplace ys"
      using 6 1(2) by (intro IH) (auto split: if_splits)
    with 6 show ?thesis
      by (simp add: newlineReplace_eqs del: newlineReplace.simps(2))
  qed
qed

text \<open>
  C9: newline normalisation is idempotent: for every string, normalising the normalised
  text gives the normalised text again.
\<close>

theorem C9_newlineReplace_idempotent:
  "newlineReplace (newlineReplace s) = newlineReplace s"
  by (rule newlineReplace_without_LF) (rule LF_notin_newlineReplace)

text \<open>
  C10: the normalised text holds no line feed; a carriage return that is not followed by
  a line feed stays where it is, at the end of the text and before any other byte, while
  a carriage return with its line feed, or a line feed without one, becomes one space;
  a text without line feeds is not changed at all.
\<close>

theorem C10_newlineReplace_keeps_bare_CR:
  "LF \<notin> set (newlineReplace s) \<and>
   newlineReplace (xs @ [CR]) = newlineReplace xs @ [CR] \<and>
   newlineReplace (xs @ CR # c # ys) =
     (if c = LF then newlineReplace xs @ SP # newlineReplace ys
      else newlineReplace xs @ CR # newlineReplace (c # ys)) \<and>
   ((xs = [] \<or> last xs \<noteq> CR) \<longrightarrow>
      newlineReplace (xs @ LF # ys) = newlineReplace xs @ SP # newlineReplace ys) \<and>
   (LF \<notin> set s \<longrightarrow> newlineReplace s = s)"
proof (intro conjI impI)
  show "LF \<notin> set (newlineReplace s)"
    by (rule LF_notin_newlineReplace)
  show "newlineReplace (xs @ [CR]) = newlineReplace xs @ [CR]"
    using newlineReplace_append[of xs "[CR]"] bytes_distinct
    by (simp del: newlineReplace.simps(2) add: newlineReplace_eqs)
  show "newlineReplace (xs @ CR # c # ys) =
     (if c = LF then newlineReplace xs @ SP # newlineReplace ys
      else newlineReplace xs @ CR # newlineReplace (c # ys))"
    using newlineReplace_append[of xs "CR # c # ys"] bytes_distinct
    by (simp del: newlineReplace.simps(2) add: newlineReplace_eqs)
  show "newlineReplace (xs @ LF # ys) = newlineReplace xs @ SP # newlineReplace ys"
    if "xs = [] \<or> last xs \<noteq> CR"
    using that newlineReplace_append[of xs "LF # ys"]
    by (auto simp del: newlineReplace.simps(2) simp add: newlineReplace_eqs)
  show "newlineReplace s = s" if "LF \<notin> set s"
    using that by (rule newlineReplace_without_LF)
qed

theorem C10_newlineReplace_keeps_bare_CR_witness:
  "newlineReplace ([CHR ''a'', CR] @ CR # CHR ''b'' # [LF, CR]) =
     [CHR ''a'', CR, CR, CHR ''b'', SP, CR] \<and>
   newlineReplace ([CHR ''a''] @ LF # [CHR ''b'']) = [CHR ''a'', SP, CHR ''b''] \<and>
   newlineReplace [CHR ''a'', CR, CHR ''b''] = [CHR ''a'', CR, CHR ''b'']"
proof -
  have 1: "[CHR ''a''] = [] \<or> last [CHR ''a''] \<noteq> CR"
    by (simp add: CR_def)
  have 2: "LF \<notin> set [CHR ''a'', CR, CHR ''b'']"
    by (simp add: CR_def LF_def)
  note C = C10_newlineReplace_keeps_bare_CR
    [where xs = "[CHR ''a'']" and ys = "[CHR ''b'']" and s = "[CHR ''a'', CR, CHR ''b'']"]
  have "newlineReplace ([CHR ''a''] @ LF # [CHR ''b'']) =
      newlineReplace [CHR ''a''] @ SP # newlineReplace [CHR ''b'']"
    using C 1 by blast
  moreover have "newlineReplace [CHR ''a'', CR, CHR ''b''] = [CHR ''a'', CR, CHR ''b'']"
    using C 2 by blast
  moreover have "newlineReplace ([CHR ''a'', CR] @ CR # CHR ''b'' # [LF, CR]) =
     [CHR ''a'', CR, CR, CHR ''b'', SP, CR]"
    by (simp add: CR_def LF_def SP_def)
  ultimately show ?thesis
    by (simp add: CR_def LF_def SP_def)
qed

subsection \<open>The shape of a run of \<open>Create\<close>\<close>

lemma Split_not_Nil: "Split s sep \<noteq> []"
  by (induction s) (auto split: list.splits)

lemma Create_resolveIP_returns:
  "Create_resolveIP w r =
     Inr (if last (Split (XForwardedFor r) (CHR '','')) \<noteq> []
          then ParseIP w (last (Split (XForwardedFor r) (CHR '','')))
          else ParseIP w (Trim (Join (butlast (Split (RemoteAddr r) (CHR '':''))) '':'') ''[]''))"
  by (simp add: Create_resolveIP_def Let_def Split_not_Nil)

lemma Since_less_Minute: "Since w t < Minute \<longleftrightarrow> time_Now w - t < Minute"
  by (simp add: Since_def Let_def Minute_def Second_def minDuration_def maxDuration_def)

lemma Create_limited_iff:
  "Create_limited w ip \<longleftrightarrow>
     (\<exists>g. repo_LastMessage w ip = Inr g \<and> time_Now w - CreatedAt g < Minute)"
  by (cases "repo_LastMessage w ip") (simp_all add: Create_limited_def Since_less_Minute)

lemma Create_gates_passed:
  assumes "ParseFormErr r = None" and "Form r ''message'' = Some msg"
    and "TrimSpace w (Join msg '' '') \<noteq> []" and "Create_resolveIP w r = Inr ip"
  shows "Create w r =
           RepoLastMessage ip #
           (if Create_limited w ip then [Sleep Minute]
            else Create_moderate w (Join msg '' '') ip)"
  using assms by (simp add: Create_def Let_def)

lemma Create_blank_rejected:
  assumes "ParseFormErr r = None" and "Form r ''message'' = Some msg"
    and "TrimSpace w (Join msg '' '') = []"
  shows "Create w r =
           [WriteHeader StatusBadRequest,
            ExecuteTemplate ''error.html'' ''Blank messages don't count'']"
  using assms by (simp add: Create_def Let_def)

lemma Sleep_notin_moderate: "Sleep d \<notin> set (Create_moderate w m ip)"
  by (simp add: Create_moderate_def Let_def split: sum.split option.split)

lemma Panic_notin_moderate: "Panic p \<notin> set (Create_moderate w m ip)"
  by (simp add: Create_moderate_def Let_def split: sum.split option.split)

lemma Panic_notin_Create: "Panic p \<notin> set (Create w r)"
  by (simp add: Create_def Let_def Create_resolveIP_returns Panic_notin_moderate
      split: option.split)

lemma moderate_insert:
  "RepoInsert g \<in> set (Create_moderate w m ip) \<Longrightarrow>
     \<not> goaway_IsProfane w (newlineReplace m) \<and> \<not> linkRegex_MatchString w (newlineReplace m) \<and>
     guest_NewGuest w (newlineReplace m) ip = Inr g"
  by (auto simp add: Create_moderate_def Let_def split: sum.splits option.splits if_splits)

lemma moderate_newGuest:
  "GuestNewGuest t a \<in> set (Create_moderate w m ip) \<Longrightarrow>
     \<not> goaway_IsProfane w (newlineReplace m) \<and> \<not> linkRegex_MatchString w (newlineReplace m) \<and>
     t = newlineReplace m \<and> a = ip"
  by (auto simp add: Create_moderate_def Let_def split: sum.splits option.splits if_splits)

lemma moderate_detector_text:
  "GoawayIsProfane t \<in> set (Create_moderate w m ip) \<or>
   LinkMatchString t \<in> set (Create_moderate w m ip) \<Longrightarrow> t = newlineReplace m"
  by (auto simp add: Create_moderate_def Let_def split: sum.splits option.splits if_splits)

lemma Create_cases:
  obtains err where "ParseFormErr r = Some err"
      "Create w r = [LogError ''failed to parse form'' err, WriteHeader StatusInternalServerError]"
  | "ParseFormErr r = None" "Form r ''message'' = None" "Create w r = [WriteHeader StatusBadRequest]"
  | msg where "ParseFormErr r = None" "Form r ''message'' = Some msg"
      "TrimSpace w (Join msg '' '') = []"
      "Create w r = [WriteHeader StatusBadRequest,
            ExecuteTemplate ''error.html'' ''Blank messages don't count'']"
  | msg ip where "ParseFormErr r = None" "Form r ''message'' = Some msg"
      "TrimSpace w (Join msg '' '') \<noteq> []" "Create_resolveIP w r = Inr ip"
      "Create_limited w ip" "Create w r = [RepoLastMessage ip, Sleep Minute]"
  | msg ip where "ParseFormErr r = None" "Form r ''message'' = Some msg"
      "TrimSpace w (Join msg '' '') \<noteq> []" "Create_resolveIP w r = Inr ip"
      "\<not> Create_limited w ip"
      "Create w r = RepoLastMessage ip # Create_moderate w (Join msg '' '') ip"
proof (cases "ParseFormErr r")
  case (Some err)
  then show ?thesis using that(1) by (simp add: Create_def)
next
  case None
  show ?thesis
  proof (cases "Form r ''message''")
    case None
    with \<open>ParseFormErr r = None\<close> show ?thesis using that(2) by (simp add: Create_def)
  next
    case (Some msg)
    show ?thesis
    proof (cases "TrimSpace w (Join msg '' '') = []")
      case True
      with None Some show ?thesis using that(3) Create_blank_rejected by blast
    next
      case False
      obtain ip where ip: "Create_resolveIP w r = Inr ip"
        using Create_resolveIP_returns by blast
      show ?thesis
        using Create_gates_passed[OF None Some False ip] that(4,5) None Some False ip
        by (cases "Create_limited w ip") simp_all
    qed
  qed
qed

text \<open>Unfolding everything, for the evaluation of \<open>Create\<close> on a concrete request.\<close>

lemmas scenario_defs = quietWorld_def postedWorld_def formRequest_def clientAddr_def As16_def
  Create_def Create_resolveIP_def Create_moderate_def Create_limited_def Since_def
  TrimSpace_def Trim_def ParseIP_def parseIPv4_def asciiSpace_def RuneSelf_def IP_String_def
  Minute_def Second_def minDuration_def maxDuration_def
  StatusBadRequest_def StatusFound_def StatusInternalServerError_def CR_def LF_def SP_def
  Let_def

subsection \<open>Rate limiting\<close>

text \<open>
  C1, as the specification states it: a submission from an identity whose last
  submission is less than 60 seconds old is rate-limited whatever the message, a blank
  message included. The handler tests for a blank message first (lines 85 to 92): with a
  submission five seconds old, the message of three spaces is answered with the
  blank-message page, nobody sleeps and the repository is not asked.
\<close>

theorem C1_blank_message_is_not_rate_limited:
  "Create_resolveIP (postedWorld (5 * Second)) (formRequest [''   ''] []) = Inr (Some clientAddr) \<and>
   repo_LastMessage (postedWorld (5 * Second)) (Some clientAddr) =
     Inr \<lparr> GuestMessage = ''first'', GuestIP = Some clientAddr,
           CreatedAt = time_Now (postedWorld (5 * Second)) - 5 * Second \<rparr> \<and>
   Create (postedWorld (5 * Second)) (formRequest [''   ''] []) =
     [WriteHeader StatusBadRequest,
      ExecuteTemplate ''error.html'' ''Blank messages don't count''] \<and>
   Sleep Minute \<notin> set (Create (postedWorld (5 * Second)) (formRequest [''   ''] []))"
  by (simp add: scenario_defs)

text \<open>
  C1, amended: when the form parses, the field \<open>message\<close> is present and its joined
  text is not blank, a last submission of the resolved identity that is less than one
  minute old ends the request after the lookup with a sleep of one minute and no
  response written.
\<close>

theorem C1_recent_submission_is_rate_limited:
  assumes "ParseFormErr r = None" and "Form r ''message'' = Some msg"
    and "TrimSpace w (Join msg '' '') \<noteq> []"
    and "Create_resolveIP w r = Inr ip"
    and "repo_LastMessage w ip = Inr lastMsg"
    and "time_Now w - CreatedAt lastMsg < Minute"
  shows "Create w r = [RepoLastMessage ip, Sleep Minute]"
proof -
  have "Create_limited w ip"
    using assms(5,6) by (auto simp add: Create_limited_iff)
  then show ?thesis
    using Create_gates_passed[OF assms(1-4)] by simp
qed

theorem C1_recent_submission_is_rate_limited_witness:
  "Create (postedWorld (5 * Second)) (formRequest [''Hello world''] []) =
     [RepoLastMessage (Some clientAddr), Sleep Minute]"
proof -
  let ?w = "postedWorld (5 * Second)" and ?r = "formRequest [''Hello world''] []"
  let ?g = "\<lparr> GuestMessage = ''first'', GuestIP = Some clientAddr,
           CreatedAt = 1700000000 * Second - 5 * Second \<rparr>"
  have 1: "ParseFormErr ?r = None" and 2: "Form ?r ''message'' = Some [''Hello world'']"
    by (simp_all add: formRequest_def)
  have 3: "TrimSpace ?w (Join [''Hello world''] '' '') \<noteq> []"
    by (simp add: scenario_defs)
  have 4: "Create_resolveIP ?w ?r = Inr (Some clientAddr)"
    by (simp add: scenario_defs)
  have 5: "repo_LastMessage ?w (Some clientAddr) = Inr ?g"
    by (simp add: scenario_defs)
  have 6: "time_Now ?w - CreatedAt ?g < Minute"
    by (simp add: scenario_defs)
  show ?thesis
    by (rule C1_recent_submission_is_rate_limited[OF 1 2 3 4 5 6])
qed

subsection \<open>The client's address\<close>

text \<open>
  C2: for the header value \<open>1.2.3.4, 5.6.7.8\<close> the specification resolves the identity
  to 5.6.7.8. The handler splits on the comma alone, so the last entry keeps its leading
  space, \<open>net.ParseIP\<close> rejects it and the identity is nil, whatever the connection
  address and the rest of the world are.
\<close>

theorem C2_forwarded_entry_after_space_is_not_parsed:
  "Create_resolveIP w (r\<lparr>XForwardedFor := ''1.2.3.4, 5.6.7.8''\<rparr>) = Inr None"
  by (simp add: Create_resolveIP_returns ParseIP_def parseIPv4_def)

text \<open>Without the space the last entry is parsed, and it overrides the connection address.\<close>

lemma forwarded_entry_without_space:
  "Create_resolveIP w (r\<lparr>XForwardedFor := ''1.2.3.4,5.6.7.8''\<rparr>) = Inr (Some (As16 [5, 6, 7, 8]))"
  by (simp add: Create_resolveIP_returns ParseIP_def parseIPv4_def)

subsection \<open>Persistence\<close>

text \<open>
  C3: \<open>guest.NewGuest\<close> and the repository's \<open>Insert\<close> are called only in a run where
  the form parsed, the message is present and not blank, the rate limiter let it through
  and neither detector matched; the guest inserted is the one \<open>NewGuest\<close> built from the
  normalised text. For the form \<open>message=Hello world\<close>, with no prior submission, no
  profanity and no link, and a repository that accepts the insertion, the run is: lookup,
  the two detectors, construction, one insertion, redirect to \<open>/\<close> with status 302.
\<close>

theorem C3_insert_only_after_every_gate:
  "(GuestNewGuest t a \<in> set (Create w r) \<or> RepoInsert g \<in> set (Create w r) \<longrightarrow>
      (\<exists>msg ip. ParseFormErr r = None \<and> Form r ''message'' = Some msg \<and>
         TrimSpace w (Join msg '' '') \<noteq> [] \<and> Create_resolveIP w r = Inr ip \<and>
         \<not> Create_limited w ip \<and>
         \<not> goaway_IsProfane w (newlineReplace (Join msg '' '')) \<and>
         \<not> linkRegex_MatchString w (newlineReplace (Join msg '' '')) \<and>
         (RepoInsert g \<in> set (Create w r) \<longrightarrow>
            guest_NewGuest w (newlineReplace (Join msg '' '')) ip = Inr g))) \<and>
   (ParseFormErr r = None \<and> Form r ''message'' = Some [''Hello world''] \<and>
    Create_resolveIP w r = Inr ip0 \<and> repo_LastMessage w ip0 = Inl e \<and>
    \<not> goaway_IsProfane w ''Hello world'' \<and> \<not> linkRegex_MatchString w ''Hello world'' \<and>
    guest_NewGuest w ''Hello world'' ip0 = Inr g0 \<and> repo_Insert w g0 = None \<longrightarrow>
      Create w r =
        [RepoLastMessage ip0, GoawayIsProfane ''Hello world'', LinkMatchString ''Hello world'',
         GuestNewGuest ''Hello world'' ip0, RepoInsert g0, Redirect ''/'' StatusFound])"
proof (intro conjI impI)
  assume ev: "GuestNewGuest t a \<in> set (Create w r) \<or> RepoInsert g \<in> set (Create w r)"
  show "\<exists>msg ip. ParseFormErr r = None \<and> Form r ''message'' = Some msg \<and>
         TrimSpace w (Join msg '' '') \<noteq> [] \<and> Create_resolveIP w r = Inr ip \<and>
         \<not> Create_limited w ip \<and>
         \<not> goaway_IsProfane w (newlineReplace (Join msg '' '')) \<and>
         \<not> linkRegex_MatchString w (newlineReplace (Join msg '' '')) \<and>
         (RepoInsert g \<in> set (Create w r) \<longrightarrow>
            guest_NewGuest w (newlineReplace (Join msg '' '')) ip = Inr g)"
  proof (cases w r rule: Create_cases)
    case (1 err)
    with ev show ?thesis by simp
  next
    case 2
    with ev show ?thesis by simp
  next
    case (3 msg)
    with ev show ?thesis by simp
  next
    case (4 msg ip)
    with ev show ?thesis by simp
  next
    case (5 msg ip)
    from ev 5(6) have ev': "GuestNewGuest t a \<in> set (Create_moderate w (Join msg '' '') ip) \<or>
        RepoInsert g \<in> set (Create_moderate w (Join msg '' '') ip)"
      by simp
    have "\<not> goaway_IsProfane w (newlineReplace (Join msg '' '')) \<and>
          \<not> linkRegex_MatchString w (newlineReplace (Join msg '' ''))"
      using ev' moderate_insert moderate_newGuest by blast
    moreover have "RepoInsert g \<in> set (Create w r) \<longrightarrow>
            guest_NewGuest w (newlineReplace (Join msg '' '')) ip = Inr g"
      using 5(6) moderate_insert by simp
    ultimately show ?thesis
      using 5(1-5) by blast
  qed
next
  assume h: "ParseFormErr r = None \<and> Form r ''message'' = Some [''Hello world''] \<and>
    Create_resolveIP w r = Inr ip0 \<and> repo_LastMessage w ip0 = Inl e \<and>
    \<not> goaway_IsProfane w ''Hello world'' \<and> \<not> linkRegex_MatchString w ''Hello world'' \<and>
    guest_NewGuest w ''Hello world'' ip0 = Inr g0 \<and> repo_Insert w g0 = None"
  have nb: "TrimSpace w (Join [''Hello world''] '' '') \<noteq> []"
    by (simp add: TrimSpace_def asciiSpace_def RuneSelf_def)
  have nl: "\<not> Create_limited w ip0"
    using h by (simp add: Create_limited_def)
  have nr: "newlineReplace ''Hello world'' = ''Hello world''"
    by (simp add: CR_def LF_def)
  have "Create w r = RepoLastMessage ip0 # Create_moderate w (Join [''Hello world''] '' '') ip0"
    using Create_gates_passed[of r "[''Hello world'']" w ip0] h nb nl by simp
  also have "Create_moderate w (Join [''Hello world''] '' '') ip0 =
     [GoawayIsProfane ''Hello world'', LinkMatchString ''Hello world'',
         GuestNewGuest ''Hello world'' ip0, RepoInsert g0, Redirect ''/'' StatusFound]"
    using h by (simp add: Create_moderate_def Let_def nr del: newlineReplace.simps)
  finally show "Create w r =
        [RepoLastMessage ip0, GoawayIsProfane ''Hello world'', LinkMatchString ''Hello world'',
         GuestNewGuest ''Hello world'' ip0, RepoInsert g0, Redirect ''/'' StatusFound]" .
qed

theorem C3_insert_only_after_every_gate_witness:
  "Create quietWorld (formRequest [''Hello world''] []) =
     [RepoLastMessage (Some clientAddr), GoawayIsProfane ''Hello world'',
      LinkMatchString ''Hello world'', GuestNewGuest ''Hello world'' (Some clientAddr),
      RepoInsert \<lparr> GuestMessage = ''Hello world'', GuestIP = Some clientAddr,
                   CreatedAt = 1700000000 * Second \<rparr>,
      Redirect ''/'' StatusFound] \<and>
   (\<exists>msg ip. Form (formRequest [''Hello world''] []) ''message'' = Some msg \<and>
      \<not> Create_limited quietWorld ip \<and>
      \<not> goaway_IsProfane quietWorld (newlineReplace (Join msg '' '')) \<and>
      \<not> linkRegex_MatchString quietWorld (newlineReplace (Join msg '' '')) \<and>
      guest_NewGuest quietWorld (newlineReplace (Join msg '' '')) ip =
        Inr \<lparr> GuestMessage = ''Hello world'', GuestIP = Some clientAddr,
              CreatedAt = 1700000000 * Second \<rparr>)"
proof -
  let ?r = "formRequest [''Hello world''] []"
  let ?g = "\<lparr> GuestMessage = ''Hello world'', GuestIP = Some clientAddr,
              CreatedAt = 1700000000 * Second \<rparr>"
  note C = C3_insert_only_after_every_gate
    [where w = quietWorld and r = ?r and g = ?g and ?g0.0 = ?g and ?ip0.0 = "Some clientAddr"
       and e = "Error ''no rows in result set''"]
  have h: "ParseFormErr ?r = None \<and> Form ?r ''message'' = Some [''Hello world''] \<and>
    Create_resolveIP quietWorld ?r = Inr (Some clientAddr) \<and>
    repo_LastMessage quietWorld (Some clientAddr) = Inl (Error ''no rows in result set'') \<and>
    \<not> goaway_IsProfane quietWorld ''Hello world'' \<and>
    \<not> linkRegex_MatchString quietWorld ''Hello world'' \<and>
    guest_NewGuest quietWorld ''Hello world'' (Some clientAddr) = Inr ?g \<and>
    repo_Insert quietWorld ?g = None"
    by (simp add: scenario_defs)
  have run: "Create quietWorld ?r =
     [RepoLastMessage (Some clientAddr), GoawayIsProfane ''Hello world'',
      LinkMatchString ''Hello world'', GuestNewGuest ''Hello world'' (Some clientAddr),
      RepoInsert ?g, Redirect ''/'' StatusFound]"
    using C h by blast
  then have "RepoInsert ?g \<in> set (Create quietWorld ?r)"
    by simp
  with C have "\<exists>msg ip. ParseFormErr ?r = None \<and> Form ?r ''message'' = Some msg \<and>
         TrimSpace quietWorld (Join msg '' '') \<noteq> [] \<and>
         Create_resolveIP quietWorld ?r = Inr ip \<and>
         \<not> Create_limited quietWorld ip \<and>
         \<not> goaway_IsProfane quietWorld (newlineReplace (Join msg '' '')) \<and>
         \<not> linkRegex_MatchString quietWorld (newlineReplace (Join msg '' '')) \<and>
         (RepoInsert ?g \<in> set (Create quietWorld ?r) \<longrightarrow>
            guest_NewGuest quietWorld (newlineReplace (Join msg '' '')) ip = Inr ?g)"
    by blast
  with \<open>RepoInsert ?g \<in> set (Create quietWorld ?r)\<close> run show ?thesis
    by blast
qed

subsection \<open>Blank messages\<close>

text \<open>
  C4: when the form parses and the field \<open>message\<close> is present, a message whose joined
  text is empty after \<open>strings.TrimSpace\<close> is answered with status 400 and the error
  page carrying \<open>Blank messages don't count\<close>, whatever the addresses of the request and
  whatever the repository holds: nothing of the world beyond the trimming is consulted.
\<close>

theorem C4_blank_message_rejected:
  assumes "ParseFormErr r = None" and "Form r ''message'' = Some msg"
    and "TrimSpace w (Join msg '' '') = []"
  shows "Create w r =
           [WriteHeader StatusBadRequest,
            ExecuteTemplate ''error.html'' ''Blank messages don't count'']"
  using assms by (rule Create_blank_rejected)

theorem C4_blank_message_rejected_witness:
  "TrimSpace (postedWorld (5 * Second)) (Join [''   ''] '' '') = [] \<and>
   Create (postedWorld (5 * Second)) (formRequest [''   ''] ''198.51.100.9'') =
     [WriteHeader StatusBadRequest,
      ExecuteTemplate ''error.html'' ''Blank messages don't count'']"
proof -
  let ?w = "postedWorld (5 * Second)" and ?r = "formRequest [''   ''] ''198.51.100.9''"
  have 1: "ParseFormErr ?r = None" and 2: "Form ?r ''message'' = Some [''   '']"
    by (simp_all add: formRequest_def)
  have 3: "TrimSpace ?w (Join [''   ''] '' '') = []"
    by (simp add: TrimSpace_def asciiSpace_def)
  show ?thesis
    using C4_blank_message_rejected[OF 1 2 3] 3 by simp
qed

subsection \<open>Links\<close>

text \<open>
  C5, as the specification states it: a submission that is neither blank nor rate-limited
  and whose text contains a link is rejected as a link. The profanity detector runs
  first (lines 122 to 131): a text that it flags and that also holds a link is answered
  with the profanity page, and the link pattern is never applied.
\<close>

theorem C5_profane_link_is_rejected_as_profane:
  "TrimSpace quietWorld (Join [''shit http://evil.example''] '' '') \<noteq> [] \<and>
   Create_resolveIP quietWorld (formRequest [''shit http://evil.example''] []) =
     Inr (Some clientAddr) \<and>
   \<not> Create_limited quietWorld (Some clientAddr) \<and>
   linkRegex_MatchString quietWorld
     (newlineReplace (Join [''shit http://evil.example''] '' '')) \<and>
   Create quietWorld (formRequest [''shit http://evil.example''] []) =
     [RepoLastMessage (Some clientAddr), GoawayIsProfane ''shit http://evil.example'',
      WriteHeader StatusBadRequest,
      ExecuteTemplate ''error.html''
        (''Please don't use profanity. Your IP has been tracked '' @
         IP_String quietWorld (Some clientAddr))] \<and>
   ExecuteTemplate ''error.html'' ''No links allowed'' \<notin>
     set (Create quietWorld (formRequest [''shit http://evil.example''] []))"
  by (simp add: scenario_defs)

text \<open>
  C5, amended: a submission that is neither blank nor rate-limited, whose normalised
  text the profanity detector does not flag and the link pattern matches, is answered
  with status 400 and the error page carrying \<open>No links allowed\<close>; nothing is
  constructed or inserted.
\<close>

theorem C5_link_rejected_unless_profane:
  assumes "ParseFormErr r = None" and "Form r ''message'' = Some msg"
    and "TrimSpace w (Join msg '' '') \<noteq> []"
    and "Create_resolveIP w r = Inr ip"
    and "\<not> Create_limited w ip"
    and "\<not> goaway_IsProfane w (newlineReplace (Join msg '' ''))"
    and "linkRegex_MatchString w (newlineReplace (Join msg '' ''))"
  shows "Create w r =
           [RepoLastMessage ip, GoawayIsProfane (newlineReplace (Join msg '' '')),
            LinkMatchString (newlineReplace (Join msg '' '')),
            WriteHeader StatusBadRequest, ExecuteTemplate ''error.html'' ''No links allowed'']"
  using Create_gates_passed[OF assms(1-4)] assms(5-7)
  by (simp add: Create_moderate_def Let_def del: newlineReplace.simps)

theorem C5_link_rejected_unless_profane_witness:
  "Create quietWorld (formRequest [''visit http://evil.example now''] []) =
     [RepoLastMessage (Some clientAddr), GoawayIsProfane ''visit http://evil.example now'',
      LinkMatchString ''visit http://evil.example now'',
      WriteHeader StatusBadRequest, ExecuteTemplate ''error.html'' ''No links allowed'']"
proof -
  let ?m = "''visit http://evil.example now''"
  let ?r = "formRequest [?m] []"
  have 1: "ParseFormErr ?r = None" and 2: "Form ?r ''message'' = Some [?m]"
    by (simp_all add: formRequest_def)
  have 3: "TrimSpace quietWorld (Join [?m] '' '') \<noteq> []"
    by (simp add: scenario_defs)
  have 4: "Create_resolveIP quietWorld ?r = Inr (Some clientAddr)"
    by (simp add: scenario_defs)
  have 5: "\<not> Create_limited quietWorld (Some clientAddr)"
    by (simp add: scenario_defs)
  have n: "newlineReplace (Join [?m] '' '') = ?m"
    by (simp add: CR_def LF_def)
  have 6: "\<not> goaway_IsProfane quietWorld (newlineReplace (Join [?m] '' ''))"
    unfolding n by (simp add: quietWorld_def)
  have 7: "linkRegex_MatchString quietWorld (newlineReplace (Join [?m] '' ''))"
    unfolding n by (simp add: quietWorld_def)
  show ?thesis
    using C5_link_rejected_unless_profane[OF 1 2 3 4 5 6 7] unfolding n .
qed

subsection \<open>An address that does not parse\<close>

text \<open>
  C6, as the specification states it: with an absent identity the rate-limit check is
  skipped and no prior message is looked up. The handler has no test for a nil IP: it asks
  the repository for the last message of the nil address, and applies the one-minute rule
  to the answer. Here the forwarded header makes the address nil and the repository
  answers with a message five seconds old.
\<close>

theorem C6_absent_identity_is_looked_up:
  "Create_resolveIP (postedWorld (5 * Second))
     (formRequest [''Hello world''] ''1.2.3.4, 5.6.7.8'') = Inr None \<and>
   Create (postedWorld (5 * Second)) (formRequest [''Hello world''] ''1.2.3.4, 5.6.7.8'') =
     [RepoLastMessage None, Sleep Minute]"
  by (simp add: scenario_defs)

text \<open>
  C6, amended: when the resolved identity is absent (nil), a submission that is not blank
  never panics; the repository is still asked for the last message, with the nil
  address, and the one-minute rule applies to its answer as for any address; a profanity
  rejection prints the nil address as \<open><nil>\<close>.
\<close>

theorem C6_absent_identity_handled:
  assumes "ParseFormErr r = None" and "Form r ''message'' = Some msg"
    and "TrimSpace w (Join msg '' '') \<noteq> []"
    and "Create_resolveIP w r = Inr None"
  shows "(\<forall>p. Panic p \<notin> set (Create w r)) \<and>
    (\<exists>rest. Create w r = RepoLastMessage None # rest) \<and>
    (Create_limited w None \<longrightarrow> Create w r = [RepoLastMessage None, Sleep Minute]) \<and>
    (\<not> Create_limited w None \<and> goaway_IsProfane w (newlineReplace (Join msg '' '')) \<longrightarrow>
       Create w r =
         [RepoLastMessage None, GoawayIsProfane (newlineReplace (Join msg '' '')),
          WriteHeader StatusBadRequest,
          ExecuteTemplate ''error.html''
            ''Please don't use profanity. Your IP has been tracked <nil>''])"
proof (intro conjI impI allI)
  note run = Create_gates_passed[OF assms]
  show "Panic p \<notin> set (Create w r)" for p
    by (rule Panic_notin_Create)
  show "\<exists>rest. Create w r = RepoLastMessage None # rest"
    using run by simp
  show "Create w r = [RepoLastMessage None, Sleep Minute]" if "Create_limited w None"
    using run that by simp
  show "Create w r =
         [RepoLastMessage None, GoawayIsProfane (newlineReplace (Join msg '' '')),
          WriteHeader StatusBadRequest,
          ExecuteTemplate ''error.html''
            ''Please don't use profanity. Your IP has been tracked <nil>'']"
    if "\<not> Create_limited w None \<and> goaway_IsProfane w (newlineReplace (Join msg '' ''))"
    using run that
    by (simp add: Create_moderate_def Let_def IP_String_def del: newlineReplace.simps)
qed

theorem C6_absent_identity_handled_witness:
  "Create_resolveIP quietWorld (formRequest [''shit''] ''1.2.3.4, 5.6.7.8'') = Inr None \<and>
   Create quietWorld (formRequest [''shit''] ''1.2.3.4, 5.6.7.8'') =
     [RepoLastMessage None, GoawayIsProfane ''shit'', WriteHeader StatusBadRequest,
      ExecuteTemplate ''error.html''
        ''Please don't use profanity. Your IP has been tracked <nil>''] \<and>
   Create (postedWorld (5 * Second)) (formRequest [''shit''] ''1.2.3.4, 5.6.7.8'') =
     [RepoLastMessage None, Sleep Minute]"
proof -
  let ?r = "formRequest [''shit''] ''1.2.3.4, 5.6.7.8''"
  have 1: "ParseFormErr ?r = None" and 2: "Form ?r ''message'' = Some [''shit'']"
    by (simp_all add: formRequest_def)
  have 3: "TrimSpace w (Join [''shit''] '' '') \<noteq> []" for w
    by (simp add: TrimSpace_def asciiSpace_def RuneSelf_def)
  have 4: "Create_resolveIP w ?r = Inr None" for w
    by (simp add: Create_resolveIP_returns ParseIP_def parseIPv4_def formRequest_def)
  have n: "newlineReplace (Join [''shit''] '' '') = ''shit''"
    by (simp add: CR_def LF_def)
  have 5: "\<not> Create_limited quietWorld None \<and>
      goaway_IsProfane quietWorld (newlineReplace (Join [''shit''] '' ''))"
    unfolding n by (simp add: quietWorld_def Create_limited_def)
  have 6: "Create_limited (postedWorld (5 * Second)) None"
    by (simp add: scenario_defs)
  note A = C6_absent_identity_handled[OF 1 2 3 4, of quietWorld]
  note B = C6_absent_identity_handled[OF 1 2 3 4, of "postedWorld (5 * Second)"]
  have "Create quietWorld ?r =
     [RepoLastMessage None, GoawayIsProfane (newlineReplace (Join [''shit''] '' '')),
      WriteHeader StatusBadRequest,
      ExecuteTemplate ''error.html''
        ''Please don't use profanity. Your IP has been tracked <nil>'']"
    using A 5 by blast
  moreover have "Create (postedWorld (5 * Second)) ?r = [RepoLastMessage None, Sleep Minute]"
    using B 6 by blast
  ultimately show ?thesis
    using 4[of quietWorld] unfolding n by simp
qed

subsection \<open>The rate limiter lets through\<close>

text \<open>
  C7: when the lookup of the last message returns an error (no prior submission, not
  found or any other failure alike), or returns a message that is at least one minute
  old, the handler does not sleep: after the lookup it goes on to moderation at once.
\<close>

theorem C7_rate_limiter_fails_open:
  assumes "ParseFormErr r = None" and "Form r ''message'' = Some msg"
    and "TrimSpace w (Join msg '' '') \<noteq> []"
    and "Create_resolveIP w r = Inr ip"
    and "(\<exists>e. repo_LastMessage w ip = Inl e) \<or>
         (\<exists>g. repo_LastMessage w ip = Inr g \<and> Minute \<le> time_Now w - CreatedAt g)"
  shows "Create w r = RepoLastMessage ip # Create_moderate w (Join msg '' '') ip \<and>
         (\<forall>d. Sleep d \<notin> set (Create w r))"
proof -
  have "\<not> Create_limited w ip"
    using assms(5) by (auto simp add: Create_limited_iff)
  then have run: "Create w r = RepoLastMessage ip # Create_moderate w (Join msg '' '') ip"
    using Create_gates_passed[OF assms(1-4)] by simp
  then show ?thesis
    by (simp add: Sleep_notin_moderate)
qed

theorem C7_rate_limiter_fails_open_witness:
  "Create (postedWorld (60 * Second)) (formRequest [''Hello world''] []) =
     RepoLastMessage (Some clientAddr) #
     Create_moderate (postedWorld (60 * Second)) ''Hello world'' (Some clientAddr) \<and>
   Sleep Minute \<notin> set (Create (postedWorld (60 * Second)) (formRequest [''Hello world''] [])) \<and>
   Create (quietWorld \<lparr> repo_LastMessage := \<lambda>ip. Inl (Error ''connection refused'') \<rparr>)
       (formRequest [''Hello world''] []) =
     RepoLastMessage (Some clientAddr) #
     Create_moderate (quietWorld \<lparr> repo_LastMessage := \<lambda>ip. Inl (Error ''connection refused'') \<rparr>)
       ''Hello world'' (Some clientAddr)"
proof -
  let ?w = "postedWorld (60 * Second)" and ?r = "formRequest [''Hello world''] []"
  let ?v = "quietWorld \<lparr> repo_LastMessage := \<lambda>ip. Inl (Error ''connection refused'') \<rparr>"
  let ?g = "\<lparr> GuestMessage = ''first'', GuestIP = Some clientAddr,
           CreatedAt = 1700000000 * Second - 60 * Second \<rparr>"
  have 1: "ParseFormErr ?r = None" and 2: "Form ?r ''message'' = Some [''Hello world'']"
    by (simp_all add: formRequest_def)
  have 3: "TrimSpace w (Join [''Hello world''] '' '') \<noteq> []" for w
    by (simp add: TrimSpace_def asciiSpace_def RuneSelf_def)
  have 4: "Create_resolveIP w ?r = Inr (Some clientAddr)" for w
    by (simp add: scenario_defs)
  have "repo_LastMessage ?w (Some clientAddr) = Inr ?g \<and> Minute \<le> time_Now ?w - CreatedAt ?g"
    by (simp add: scenario_defs)
  then have 5: "(\<exists>e. repo_LastMessage ?w (Some clientAddr) = Inl e) \<or>
         (\<exists>g. repo_LastMessage ?w (Some clientAddr) = Inr g \<and>
              Minute \<le> time_Now ?w - CreatedAt g)"
    by blast
  have 6: "(\<exists>e. repo_LastMessage ?v (Some clientAddr) = Inl e) \<or>
         (\<exists>g. repo_LastMessage ?v (Some clientAddr) = Inr g \<and>
              Minute \<le> time_Now ?v - CreatedAt g)"
    by simp
  have j: "Join [''Hello world''] '' '' = ''Hello world''"
    by simp
  note A = C7_rate_limiter_fails_open[OF 1 2 3 4 5, unfolded j]
    and B = C7_rate_limiter_fails_open[OF 1 2 3 4 6, unfolded j]
  from A have a1: "Create ?w ?r =
      RepoLastMessage (Some clientAddr) # Create_moderate ?w ''Hello world'' (Some clientAddr)"
    and a2: "Sleep Minute \<notin> set (Create ?w ?r)"
    by blast+
  from B have b1: "Create ?v ?r =
      RepoLastMessage (Some clientAddr) # Create_moderate ?v ''Hello world'' (Some clientAddr)"
    by blast
  show ?thesis
    by (intro conjI) (rule a1 a2 b1)+
qed

subsection \<open>The place of normalisation\<close>

text \<open>
  C8: the blank test is on the joined text as it was sent; if it passes, the repository
  lookup of the rate limiter comes next, and only a run that is not rate-limited
  continues, with the profanity detector on the newline-normalised text. Every text
  handed to the profanity detector or to the link pattern is the normalised one.
\<close>

theorem C8_normalisation_after_rate_limit_before_detectors:
  assumes "ParseFormErr r = None" and "Form r ''message'' = Some msg"
  shows "(TrimSpace w (Join msg '' '') = [] \<longrightarrow>
            Create w r =
              [WriteHeader StatusBadRequest,
               ExecuteTemplate ''error.html'' ''Blank messages don't count'']) \<and>
         (TrimSpace w (Join msg '' '') \<noteq> [] \<longrightarrow>
            (\<exists>ip. Create w r = [RepoLastMessage ip, Sleep Minute] \<or>
               (\<exists>rest. Create w r =
                  RepoLastMessage ip # GoawayIsProfane (newlineReplace (Join msg '' '')) # rest))) \<and>
         (\<forall>t. GoawayIsProfane t \<in> set (Create w r) \<or> LinkMatchString t \<in> set (Create w r) \<longrightarrow>
            t = newlineReplace (Join msg '' ''))"
proof (intro conjI impI allI)
  show "Create w r =
          [WriteHeader StatusBadRequest,
           ExecuteTemplate ''error.html'' ''Blank messages don't count'']"
    if "TrimSpace w (Join msg '' '') = []"
    using assms that by (rule Create_blank_rejected)
  obtain ip where ip: "Create_resolveIP w r = Inr ip"
    using Create_resolveIP_returns by blast
  show "\<exists>ip. Create w r = [RepoLastMessage ip, Sleep Minute] \<or>
               (\<exists>rest. Create w r =
                  RepoLastMessage ip # GoawayIsProfane (newlineReplace (Join msg '' '')) # rest)"
    if "TrimSpace w (Join msg '' '') \<noteq> []"
    using Create_gates_passed[OF assms that ip]
    by (cases "Create_limited w ip") (auto simp add: Create_moderate_def Let_def simp del: newlineReplace.simps)
  show "t = newlineReplace (Join msg '' '')"
    if ev: "GoawayIsProfane t \<in> set (Create w r) \<or> LinkMatchString t \<in> set (Create w r)" for t
  proof (cases "TrimSpace w (Join msg '' '') = []")
    case True
    with ev Create_blank_rejected[OF assms True] show ?thesis by simp
  next
    case False
    note run = Create_gates_passed[OF assms False ip]
    show ?thesis
    proof (cases "Create_limited w ip")
      case True
      with run ev show ?thesis by simp
    next
      case False
      with run ev have "GoawayIsProfane t \<in> set (Create_moderate w (Join msg '' '') ip) \<or>
          LinkMatchString t \<in> set (Create_moderate w (Join msg '' '') ip)"
        by simp
      then show ?thesis by (rule moderate_detector_text)
    qed
  qed
qed

theorem C8_normalisation_after_rate_limit_before_detectors_witness:
  "TrimSpace quietWorld (Join [[CHR ''a'', CR, LF, CHR ''b'']] '' '') = [CHR ''a'', CR, LF, CHR ''b''] \<and>
   Create quietWorld (formRequest [[CHR ''a'', CR, LF, CHR ''b'']] []) =
     RepoLastMessage (Some clientAddr) # GoawayIsProfane ''a b'' #
     tl (tl (Create quietWorld (formRequest [[CHR ''a'', CR, LF, CHR ''b'']] []))) \<and>
   LinkMatchString ''a b'' \<in> set (Create quietWorld (formRequest [[CHR ''a'', CR, LF, CHR ''b'']] []))"
proof -
  let ?m = "[CHR ''a'', CR, LF, CHR ''b'']"
  let ?r = "formRequest [?m] []"
  have 1: "ParseFormErr ?r = None" and 2: "Form ?r ''message'' = Some [?m]"
    by (simp_all add: formRequest_def)
  have 3: "TrimSpace quietWorld (Join [?m] '' '') = ?m"
    by (simp add: TrimSpace_def asciiSpace_def RuneSelf_def CR_def LF_def)
  have n: "newlineReplace (Join [?m] '' '') = ''a b''"
    by (simp add: CR_def LF_def SP_def)
  note C = C8_normalisation_after_rate_limit_before_detectors[OF 1 2, of quietWorld]
  have S: "Sleep Minute \<notin> set (Create quietWorld ?r)"
    by (simp add: scenario_defs)
  have "\<exists>ip. Create quietWorld ?r = [RepoLastMessage ip, Sleep Minute] \<or>
               (\<exists>rest. Create quietWorld ?r = RepoLastMessage ip # GoawayIsProfane ''a b'' # rest)"
    using C 3 unfolding n by simp
  then obtain ip rest where run: "Create quietWorld ?r = RepoLastMessage ip # GoawayIsProfane ''a b'' # rest"
    using S by auto
  have ip: "ip = Some clientAddr"
    using run by (simp add: scenario_defs)
  have L: "LinkMatchString ''a b'' \<in> set (Create quietWorld ?r)"
    by (simp add: scenario_defs)
  show ?thesis
    using 3 run ip L by simp
qed

end
